theory Spec2Isabelle
  imports Main "HOL-Library.Sublist"
begin

section \<open>The navigation link registry of the Edamorph frontend\<close>

text \<open>
  The module \<^verbatim>\<open>frontend/src/components/navigation/NavigationLinks.ts\<close> declares one type
  and one exported constant:
  \<^verbatim>\<open>
  export type MenuGroup = {
      title: string;
      icon?: string;          // Optional emoji/icon
      links: {
          label: string;
          href: string;
          icon?: string;
      }[];
  };

  export const menuGroups: MenuGroup[] = [ ... ];
  \<close>
  It has no function, no branch and no loop: the embedding is the data type and the
  literal.
\<close>

subsection \<open>Data model\<close>

text \<open>
  The element type of \<^verbatim>\<open>links\<close> is anonymous in the source; it is named \<open>MenuLink\<close>
  here. An optional property (\<^verbatim>\<open>icon?: string\<close>) is an \<open>option\<close>: a literal that omits
  it has \<open>None\<close>. Both object types have a field \<^verbatim>\<open>icon\<close>; they are told apart as
  \<open>MenuLink.icon\<close> and \<open>MenuGroup.icon\<close>.

  Strings are \<open>char list\<close>s holding the bytes of the source text, which is UTF-8. Three
  labels and the three icons leave ASCII; their bytes are written out with \<open>CHR\<close>:
  \<^item> e with acute accent, U+00E9: C3 A9;
  \<^item> Greek small eta, U+03B7: CE B7; superscript two, U+00B2: C2 B2;
  \<^item> link symbol, U+1F517: F0 9F 94 97; wrench, U+1F527: F0 9F 94 A7;
    bar chart, U+1F4CA: F0 9F 93 8A.
  Nothing below measures a string or indexes into one: strings are only compared, and
  tested for an ASCII prefix, and on both the UTF-8 bytes agree with the UTF-16 code
  units the TypeScript runtime holds.
\<close>

record MenuLink =
  label :: string
  href :: string
  icon :: "string option"

record MenuGroup =
  title :: string
  icon :: "string option"
  links :: "MenuLink list"

subsection \<open>The exported constant\<close>

definition menuGroups :: "MenuGroup list" where
  "menuGroups = [
    \<lparr> title = ''Correlations'',
      icon = Some [CHR 0xF0, CHR 0x9F, CHR 0x94, CHR 0x97],
      links = [
        \<lparr> label = ''Full Matrix'', href = ''/correlation/matrix'', icon = None \<rparr>,
        \<lparr> label = ''Pairwise Metrics'', href = ''/correlation/pairwise'', icon = None \<rparr>,
        \<lparr> label = ''Cram'' @ [CHR 0xC3, CHR 0xA9] @ ''r's V'',
          href = ''/correlation/cramers-v'', icon = None \<rparr>,
        \<lparr> label = ''Correlation Ratio ('' @ [CHR 0xCE, CHR 0xB7, CHR 0xC2, CHR 0xB2] @ '')'',
          href = ''/correlation/eta'', icon = None \<rparr>,
        \<lparr> label = ''Feature Heatmap'', href = ''/correlation/heatmap'', icon = None \<rparr>
      ] \<rparr>,
    \<lparr> title = ''Transformations'',
      icon = Some [CHR 0xF0, CHR 0x9F, CHR 0x94, CHR 0xA7],
      links = [
        \<lparr> label = ''Column Transformations'', href = ''/transformations/columns'', icon = None \<rparr>,
        \<lparr> label = ''Normalizations'', href = ''/transformations/normalize'', icon = None \<rparr>,
        \<lparr> label = ''Encodings'', href = ''/transformations/encodings'', icon = None \<rparr>,
        \<lparr> label = ''Feature Engineering'', href = ''/transformations/feature-eng'', icon = None \<rparr>,
        \<lparr> label = ''Generated SQL'', href = ''/transformations/sql-preview'', icon = None \<rparr>
      ] \<rparr>,
    \<lparr> title = ''Distributions'',
      icon = Some [CHR 0xF0, CHR 0x9F, CHR 0x93, CHR 0x8A],
      links = [
        \<lparr> label = ''Histogram'', href = ''/distributions/histogram'', icon = None \<rparr>,
        \<lparr> label = ''Box Plot'', href = ''/distributions/boxplot'', icon = None \<rparr>,
        \<lparr> label = ''Quantiles'', href = ''/distributions/quantiles'', icon = None \<rparr>,
        \<lparr> label = ''Outliers'', href = ''/distributions/outliers'', icon = None \<rparr>,
        \<lparr> label = ''KDE'', href = ''/distributions/kde'', icon = None \<rparr>
      ] \<rparr>
  ]"

text \<open>
  The module exports the array itself. It defines no accessor, no other operation and
  no state of its own, so the constant above is the whole of its behaviour: every
  statement below is about \<open>menuGroups\<close>.
\<close>

section \<open>The authored content\<close>

text \<open>
  C1. Reading the registry gives exactly three groups, titled "Correlations",
  "Transformations" and "Distributions", in that order.
\<close>

theorem menuGroups_titles:
  "length menuGroups = 3 \<and>
   map title menuGroups = [''Correlations'', ''Transformations'', ''Distributions'']"
  by (simp add: menuGroups_def)

text \<open>
  C2. Exactly one group is titled "Correlations"; it has exactly five links, whose labels
  and hrefs are, in order, the five pairs below (the third label is "Cramer's V" with an
  acute e, the fourth "Correlation Ratio (eta squared)" in Greek and superscript).
\<close>

theorem correlations_links:
  "length (filter (\<lambda>g. title g = ''Correlations'') menuGroups) = 1 \<and>
   (case find (\<lambda>g. title g = ''Correlations'') menuGroups of
      None \<Rightarrow> False
    | Some g \<Rightarrow>
        length (links g) = 5 \<and>
        map (\<lambda>l. (label l, href l)) (links g) =
          [(''Full Matrix'', ''/correlation/matrix''),
           (''Pairwise Metrics'', ''/correlation/pairwise''),
           (''Cram'' @ [CHR 0xC3, CHR 0xA9] @ ''r's V'', ''/correlation/cramers-v''),
           (''Correlation Ratio ('' @ [CHR 0xCE, CHR 0xB7, CHR 0xC2, CHR 0xB2] @ '')'',
            ''/correlation/eta''),
           (''Feature Heatmap'', ''/correlation/heatmap'')])"
  by (simp add: menuGroups_def)

text \<open>
  C3. Exactly one group is titled "Transformations"; it has exactly five links, every
  href of which starts with "/transformations/", and the labels and hrefs are those of
  the source literal, in its order.
\<close>

theorem transformations_links:
  "length (filter (\<lambda>g. title g = ''Transformations'') menuGroups) = 1 \<and>
   (case find (\<lambda>g. title g = ''Transformations'') menuGroups of
      None \<Rightarrow> False
    | Some g \<Rightarrow>
        length (links g) = 5 \<and>
        list_all (\<lambda>l. prefix ''/transformations/'' (href l)) (links g) \<and>
        map (\<lambda>l. (label l, href l)) (links g) =
          [(''Column Transformations'', ''/transformations/columns''),
           (''Normalizations'', ''/transformations/normalize''),
           (''Encodings'', ''/transformations/encodings''),
           (''Feature Engineering'', ''/transformations/feature-eng''),
           (''Generated SQL'', ''/transformations/sql-preview'')])"
  by (simp add: menuGroups_def)

text \<open>
  C4. Exactly one group is titled "Distributions"; it has exactly five links, every href
  of which starts with "/distributions/", and the labels and hrefs are those of the
  source literal, in its order.
\<close>

theorem distributions_links:
  "length (filter (\<lambda>g. title g = ''Distributions'') menuGroups) = 1 \<and>
   (case find (\<lambda>g. title g = ''Distributions'') menuGroups of
      None \<Rightarrow> False
    | Some g \<Rightarrow>
        length (links g) = 5 \<and>
        list_all (\<lambda>l. prefix ''/distributions/'' (href l)) (links g) \<and>
        map (\<lambda>l. (label l, href l)) (links g) =
          [(''Histogram'', ''/distributions/histogram''),
           (''Box Plot'', ''/distributions/boxplot''),
           (''Quantiles'', ''/distributions/quantiles''),
           (''Outliers'', ''/distributions/outliers''),
           (''KDE'', ''/distributions/kde'')])"
  by (simp add: menuGroups_def)

text \<open>
  C8. No two groups of the registry have the same title.
\<close>

theorem titles_distinct:
  "distinct (map title menuGroups)"
  by (simp add: menuGroups_def)

text \<open>
  C9. The registry has fifteen links in all; no two of them, in the same group or in
  different ones, have the same href, and every href starts with "/".
\<close>

theorem hrefs_distinct:
  "length (concat (map links menuGroups)) = 15 \<and>
   distinct (map href (concat (map links menuGroups))) \<and>
   list_all (\<lambda>l. prefix ''/'' (href l)) (concat (map links menuGroups))"
  by (simp add: menuGroups_def)

text \<open>
  C10. Each of the three groups has an icon: the link symbol, the wrench and the bar
  chart, in that order. None of the fifteen links has one.
\<close>

theorem icons_groups_only:
  "map MenuGroup.icon menuGroups =
     [Some [CHR 0xF0, CHR 0x9F, CHR 0x94, CHR 0x97],
      Some [CHR 0xF0, CHR 0x9F, CHR 0x94, CHR 0xA7],
      Some [CHR 0xF0, CHR 0x9F, CHR 0x93, CHR 0x8A]] \<and>
   length (concat (map links menuGroups)) = 15 \<and>
   list_all (\<lambda>l. MenuLink.icon l = None) (concat (map links menuGroups))"
  by (simp add: menuGroups_def)

end
